theory Spec2Isabelle
  imports Main
begin

section \<open>JavaScript values\<close>

text \<open>
  The arguments of the commands are JavaScript values. The model has the primitive
  values and plain data objects: objects whose prototype is \<open>Object.prototype\<close>,
  given by their own keys, whose values are data again and so never a function.
  \<open>JNum n\<close> stands for the number \<open>n\<close> when \<open>n\<close> is a safe integer, at most
  \<open>2^53 - 1\<close> in size (\<open>safe_number\<close> below); fractions, the infinities, symbols
  and big integers are outside the model. An omitted argument is \<open>undefined\<close>.
\<close>

datatype jsval =
    JUndefined
  | JNull
  | JBool bool
  | JNum int
  | JNaN
  | JStr string
  | JObj "(string \<times> jsval) list"

text \<open>
  The numbers that the model speaks about: every safe integer is a JavaScript number,
  and ToString prints it in plain decimal.
\<close>

fun safe_number :: "jsval \<Rightarrow> bool" where
  "safe_number (JNum n) = (\<bar>n\<bar> \<le> 9007199254740991)"
| "safe_number v = True"

text \<open>ToBoolean.\<close>

fun truthy :: "jsval \<Rightarrow> bool" where
  "truthy JUndefined = False"
| "truthy JNull = False"
| "truthy (JBool b) = b"
| "truthy (JNum n) = (n \<noteq> 0)"
| "truthy JNaN = False"
| "truthy (JStr s) = (s \<noteq> [])"
| "truthy (JObj kvs) = True"

text \<open>The operator \<open>a || b\<close>: the left operand when it is truthy, else the right one.\<close>

definition js_or :: "jsval \<Rightarrow> jsval \<Rightarrow> jsval" where
  "js_or a b = (if truthy a then a else b)"

text \<open>Decimal digits of a number, as ToString prints an integer.\<close>

fun show_nat :: "nat \<Rightarrow> string" where
  "show_nat n =
     (if n < 10 then [''0123456789'' ! n]
      else show_nat (n div 10) @ [''0123456789'' ! (n mod 10)])"

declare show_nat.simps [simp del]

definition show_int :: "int \<Rightarrow> string" where
  "show_int i = (if i < 0 then CHR ''-'' # show_nat (nat (- i)) else show_nat (nat i))"

text \<open>
  A thrown value is either the error this layer creates with \<open>new Error(message)\<close>
  (\<open>Fresh\<close>), a \<open>TypeError\<close> of the language itself (its message is the
  engine's and is not modelled), or an error raised by a collaborator (the driver, the
  browser), kept with its name and message.
\<close>

datatype exn =
    Fresh string
  | TypeError
  | DriverError string string

text \<open>
  An object has a primitive value unless it has an own key \<open>toString\<close>. The
  conversion of an object to a primitive calls \<open>toString\<close> and \<open>valueOf\<close> (in this
  order for a string, in the other order for a number) and takes the first primitive
  result. An own key holds data, which cannot be called, and the inherited
  \<open>valueOf\<close> returns the object itself; so the result is that of the inherited
  \<open>toString\<close>, the string \<open>[object Object]\<close>, when \<open>toString\<close> is not an own
  key, and a \<open>TypeError\<close> when it is.
\<close>

definition has_primitive :: "(string \<times> jsval) list \<Rightarrow> bool" where
  "has_primitive kvs = (map_of kvs ''toString'' = None)"

text \<open>
  ToString, as a template literal \<open>${v}\<close> applies it. The digits of a number are those
  of a safe integer.
\<close>

fun to_string :: "jsval \<Rightarrow> exn + string" where
  "to_string JUndefined = Inr ''undefined''"
| "to_string JNull = Inr ''null''"
| "to_string (JBool b) = Inr (if b then ''true'' else ''false'')"
| "to_string (JNum n) = Inr (show_int n)"
| "to_string JNaN = Inr ''NaN''"
| "to_string (JStr s) = Inr s"
| "to_string (JObj kvs) = (if has_primitive kvs then Inr ''[object Object]'' else Inl TypeError)"

text \<open>
  The coercion \<open>after *= 1\<close> that the timer applies to its delay: it throws for an
  object that has no primitive value and gives a number for every other value of the
  model. Which number is of no concern here: the timer fires for every number.
\<close>

fun coerce_delay :: "jsval \<Rightarrow> exn + unit" where
  "coerce_delay (JObj kvs) = (if has_primitive kvs then Inr () else Inl TypeError)"
| "coerce_delay v = Inr ()"

section \<open>Errors, promises and the trace of effects\<close>

text \<open>
  The eventual state of a promise. \<open>Pending\<close> is the promise that never settles.
  A synchronous throw of a call that is awaited inside \<open>try\<close> is caught like a
  rejection, so both are \<open>Rejected\<close>.
\<close>

datatype 'a settle = Resolved 'a | Rejected exn | Pending

datatype locator = ById string | ByXpath string | ByCss string

text \<open>
  The condition handed to \<open>driver.wait\<close>: \<open>until.elementLocated(locator)\<close>, or
  the closure \<open>() => driver.executeScript(script)\<close>.
\<close>

datatype cond = ElementLocated locator | ScriptTruthy string

type_synonym element = nat
type_synonym check = string

text \<open>
  Everything a command does to the outside, in order: calls of the driver, of the
  browser, of the timer, and the two logger calls.
\<close>

datatype event =
    DriverWait cond jsval
  | FindElement locator
  | ClickPerform "element option"
  | ExtraWait check
  | SetTimeout jsval
  | LogError string "jsval list"
  | LogVerbose exn

text \<open>
  The browser session is a collaborator: it is a parameter of the model. Each field
  gives the eventual state of the promise that the call returns.
  \<^item> \<open>wait_until c t\<close>: \<open>getDriver().wait(c, t)\<close>;
  \<^item> \<open>findElement l\<close>: \<open>getDriver().findElement(l)\<close>;
  \<^item> \<open>click_perform e\<close>: \<open>actions.click(e).perform()\<close>, \<open>None\<close> for \<open>click()\<close>;
  \<^item> \<open>extraWait c\<close>: \<open>browser.extraWait(c)\<close>.
\<close>

record browser =
  wait_until :: "cond \<Rightarrow> jsval \<Rightarrow> jsval settle"
  findElement :: "locator \<Rightarrow> element settle"
  click_perform :: "element option \<Rightarrow> unit settle"
  extraWait :: "check \<Rightarrow> jsval settle"

text \<open>
  The fields that the constructors of \<open>Wait\<close> and \<open>SingleClick\<close> store.
  \<open>getDriver()\<close> hands out the driver and \<open>actions\<close> is the driver's action
  sequence; both are reached through \<open>browser\<close>.
\<close>

record cmd =
  browser :: browser
  pageCompleteCheck :: check

type_synonym 'a task = "event list \<Rightarrow> 'a settle \<times> event list"

text \<open>
  A task maps the trace so far to the eventual state of its promise and the trace
  extended by what it did.
\<close>

text \<open>A call of a collaborator: it is recorded, and its promise has the state \<open>p\<close>.\<close>

definition call :: "event \<Rightarrow> 'a settle \<Rightarrow> 'a task" where
  "call ev p tr = (p, tr @ [ev])"

text \<open>
  \<open>const v = await m; k v\<close>: the rest runs only when \<open>m\<close> has resolved; a
  rejection is thrown at the \<open>await\<close>, and a promise that never settles suspends
  the function for ever.
\<close>

definition await :: "'a task \<Rightarrow> ('a \<Rightarrow> 'b task) \<Rightarrow> 'b task" where
  "await m k tr =
     (case m tr of
        (Resolved v, tr') \<Rightarrow> k v tr'
      | (Rejected e, tr') \<Rightarrow> (Rejected e, tr')
      | (Pending, tr') \<Rightarrow> (Pending, tr'))"

text \<open>Two statements in sequence, the first one synchronous.\<close>

definition seq :: "unit task \<Rightarrow> 'b task \<Rightarrow> 'b task" where
  "seq m k = await m (\<lambda>_. k)"

text \<open>\<open>try { m } catch (error) { h error }\<close>.\<close>

definition try_catch :: "'a task \<Rightarrow> (exn \<Rightarrow> 'a task) \<Rightarrow> 'a task" where
  "try_catch m h tr =
     (case m tr of
        (Rejected e, tr') \<Rightarrow> h e tr'
      | (Resolved v, tr') \<Rightarrow> (Resolved v, tr')
      | (Pending, tr') \<Rightarrow> (Pending, tr'))"

text \<open>The logger is a sink: a call is recorded with its arguments and returns.\<close>

definition log_error :: "string \<Rightarrow> jsval list \<Rightarrow> unit task" where
  "log_error fmt args tr = (Resolved (), tr @ [LogError fmt args])"

definition log_verbose :: "exn \<Rightarrow> unit task" where
  "log_verbose e tr = (Resolved (), tr @ [LogVerbose e])"

definition throw :: "exn \<Rightarrow> 'a task" where
  "throw e tr = (Rejected e, tr)"

text \<open>The value of an expression that may throw.\<close>

definition eval :: "exn + 'a \<Rightarrow> 'a task" where
  "eval r tr = (case r of Inl e \<Rightarrow> (Rejected e, tr) | Inr v \<Rightarrow> (Resolved v, tr))"

text \<open>
  How the body of an async function ends: it runs off its end (\<open>Normal\<close>, the
  function returns \<open>undefined\<close>), or it executes \<open>return p\<close> for a promise \<open>p\<close>
  that it has not awaited, given by its eventual state.
\<close>

datatype completion = Normal | Return "jsval settle"

definition normal :: "completion task" where
  "normal tr = (Resolved Normal, tr)"

text \<open>
  \<open>return m\<close> with no \<open>await\<close>: what \<open>m\<close> does on being called is done, and its
  promise is handed out as it is, whatever its state. The statement itself completes.
\<close>

definition return_promise :: "jsval task \<Rightarrow> completion task" where
  "return_promise m tr = (case m tr of (p, tr') \<Rightarrow> (Resolved (Return p), tr'))"

text \<open>
  The promise of an async function: rejected when the body throws, resolved with
  \<open>undefined\<close> when the body runs off its end, and otherwise it follows the promise
  that the body returned.
\<close>

definition async :: "completion task \<Rightarrow> jsval task" where
  "async m tr =
     (case m tr of
        (Resolved Normal, tr') \<Rightarrow> (Resolved JUndefined, tr')
      | (Resolved (Return p), tr') \<Rightarrow> (p, tr')
      | (Rejected e, tr') \<Rightarrow> (Rejected e, tr')
      | (Pending, tr') \<Rightarrow> (Pending, tr'))"

section \<open>The class \<open>Wait\<close>\<close>

text \<open>
  In the catch blocks the message is a template literal: \<open>time\<close> is converted to a
  string after the two logger calls, and a conversion that throws is thrown by the
  catch block in place of the new error.
\<close>

definition Wait_byId :: "cmd \<Rightarrow> string \<Rightarrow> jsval \<Rightarrow> jsval task" where
  "Wait_byId self ident maxTime =
     (let time = js_or maxTime (JNum 6000) in
      async (try_catch
        (await (call (DriverWait (ElementLocated (ById ident)) time)
                     (wait_until (browser self) (ElementLocated (ById ident)) time))
           (\<lambda>_. normal))
        (\<lambda>error.
           seq (log_error ''Element by id %s was not located in %s ms'' [JStr ident, time])
          (seq (log_verbose error)
          (await (eval (to_string time))
             (\<lambda>s. throw (Fresh (''Element by id '' @ ident @ '' was not located in ''
                                  @ s @ '' ms''))))))))"

definition Wait_byXpath :: "cmd \<Rightarrow> string \<Rightarrow> jsval \<Rightarrow> jsval task" where
  "Wait_byXpath self xpath maxTime =
     (let time = js_or maxTime (JNum 6000) in
      async (try_catch
        (await (call (DriverWait (ElementLocated (ByXpath xpath)) time)
                     (wait_until (browser self) (ElementLocated (ByXpath xpath)) time))
           (\<lambda>_. normal))
        (\<lambda>error.
           seq (log_error ''Element by xpath %s was not located in %s ms'' [JStr xpath, time])
          (seq (log_verbose error)
          (await (eval (to_string time))
             (\<lambda>s. throw (Fresh (''Element by xpath '' @ xpath @ '' was not located in ''
                                  @ s @ '' ms''))))))))"

definition Wait_bySelector :: "cmd \<Rightarrow> string \<Rightarrow> jsval \<Rightarrow> jsval task" where
  "Wait_bySelector self selector maxTime =
     (let time = js_or maxTime (JNum 6000) in
      async (try_catch
        (await (call (DriverWait (ElementLocated (ByCss selector)) time)
                     (wait_until (browser self) (ElementLocated (ByCss selector)) time))
           (\<lambda>_. normal))
        (\<lambda>error.
           seq (log_error ''Element by selector %s was not located in %s ms'' [JStr selector, time])
          (seq (log_verbose error)
          (await (eval (to_string time))
             (\<lambda>s. throw (Fresh (''Element by selector '' @ selector @ '' was not located in ''
                                  @ s @ '' ms''))))))))"

text \<open>
  \<open>delay(ms)\<close> is \<open>new Promise(res => setTimeout(res, ms))\<close>. The timer of the
  platform coerces its delay to a number. When the coercion throws, the executor of the
  promise throws and the promise is rejected with that error. Otherwise the timer
  later calls \<open>res\<close> with no argument, whatever the number (a delay that is not
  between 1 and \<open>2^31 - 1\<close> is taken as 1), and the promise resolves with
  \<open>undefined\<close>.
\<close>

definition delay :: "jsval \<Rightarrow> jsval task" where
  "delay ms =
     (case coerce_delay ms of
        Inl e \<Rightarrow> call (SetTimeout ms) (Rejected e)
      | Inr u \<Rightarrow> call (SetTimeout ms) (Resolved JUndefined))"

definition Wait_byTime :: "cmd \<Rightarrow> jsval \<Rightarrow> jsval task" where
  "Wait_byTime self ms = async (return_promise (delay ms))"

definition Wait_byPageToComplete :: "cmd \<Rightarrow> jsval task" where
  "Wait_byPageToComplete self =
     async (return_promise
       (call (ExtraWait (pageCompleteCheck self))
             (extraWait (browser self) (pageCompleteCheck self))))"

definition Wait_byCondition :: "cmd \<Rightarrow> string \<Rightarrow> jsval \<Rightarrow> jsval task" where
  "Wait_byCondition self jsExpression maxTime =
     (let time = js_or maxTime (JNum 6000) in
      async (try_catch
        (let script = ''return '' @ jsExpression in
         await (call (DriverWait (ScriptTruthy script) time)
                     (wait_until (browser self) (ScriptTruthy script) time))
           (\<lambda>_. normal))
        (\<lambda>error.
           seq (log_error ''Condition was not met'' [JStr jsExpression, time])
          (seq (log_verbose error)
          (await (eval (to_string time))
             (\<lambda>s. throw (Fresh (''Condition '' @ jsExpression @ '' was not met in ''
                                  @ s @ '' ms''))))))))"

section \<open>The class \<open>SingleClick\<close>\<close>

text \<open>
  The operator \<open>key in v\<close>: a \<open>TypeError\<close> unless \<open>v\<close> is an object. The list of
  an object holds each key once; a lookup takes the first binding.
\<close>

definition js_in :: "string \<Rightarrow> jsval \<Rightarrow> exn + bool" where
  "js_in key v =
     (case v of
        JObj kvs \<Rightarrow> Inr (map_of kvs key \<noteq> None)
      | _ \<Rightarrow> Inl TypeError)"

text \<open>The property read \<open>v.key\<close> of a value that is not \<open>undefined\<close> or \<open>null\<close>.\<close>

definition js_get :: "jsval \<Rightarrow> string \<Rightarrow> jsval" where
  "js_get v key =
     (case v of
        JObj kvs \<Rightarrow> (case map_of kvs key of Some x \<Rightarrow> x | None \<Rightarrow> JUndefined)
      | _ \<Rightarrow> JUndefined)"

text \<open>
  The test \<open>options && 'wait' in options && options.wait === true\<close>, which the three
  methods share word for word. \<open>&&\<close> evaluates its right operand only when the left
  one is truthy.
\<close>

definition wait_option :: "jsval \<Rightarrow> exn + bool" where
  "wait_option options =
     (if \<not> truthy options then Inr False
      else case js_in ''wait'' options of
             Inl e \<Rightarrow> Inl e
           | Inr False \<Rightarrow> Inr False
           | Inr True \<Rightarrow> Inr (js_get options ''wait'' = JBool True))"

definition SingleClick_byXpath :: "cmd \<Rightarrow> string \<Rightarrow> jsval \<Rightarrow> jsval task" where
  "SingleClick_byXpath self xpath options =
     async (try_catch
       (await (call (FindElement (ByXpath xpath)) (findElement (browser self) (ByXpath xpath)))
          (\<lambda>element.
        await (call (ClickPerform (Some element)) (click_perform (browser self) (Some element)))
          (\<lambda>_.
        await (eval (wait_option options))
          (\<lambda>w. if w
                then return_promise
                       (call (ExtraWait (pageCompleteCheck self))
                             (extraWait (browser self) (pageCompleteCheck self)))
                else normal))))
       (\<lambda>error.
          seq (log_error ''Could not single click on element with xpath %s'' [JStr xpath])
         (seq (log_verbose error)
         (throw (Fresh (''Could not single click on element with xpath '' @ xpath))))))"

definition SingleClick_bySelector :: "cmd \<Rightarrow> string \<Rightarrow> jsval \<Rightarrow> jsval task" where
  "SingleClick_bySelector self selector options =
     async (try_catch
       (await (call (FindElement (ByCss selector)) (findElement (browser self) (ByCss selector)))
          (\<lambda>element.
        await (call (ClickPerform (Some element)) (click_perform (browser self) (Some element)))
          (\<lambda>_.
        await (eval (wait_option options))
          (\<lambda>w. if w
                then return_promise
                       (call (ExtraWait (pageCompleteCheck self))
                             (extraWait (browser self) (pageCompleteCheck self)))
                else normal))))
       (\<lambda>error.
          seq (log_error ''Could not single click on element with selector %s'' [JStr selector])
         (seq (log_verbose error)
         (throw (Fresh (''Could not single click on element with selector '' @ selector))))))"

definition SingleClick_atCursor :: "cmd \<Rightarrow> jsval \<Rightarrow> jsval task" where
  "SingleClick_atCursor self options =
     async (try_catch
       (await (call (ClickPerform None) (click_perform (browser self) None))
          (\<lambda>_.
        await (eval (wait_option options))
          (\<lambda>w. if w
                then return_promise
                       (call (ExtraWait (pageCompleteCheck self))
                             (extraWait (browser self) (pageCompleteCheck self)))
                else normal)))
       (\<lambda>error.
          seq (log_error ''Could not perform single click'' [])
         (seq (log_verbose error)
         (throw (Fresh ''Could not perform single click'')))))"

section \<open>All operations, and what a trace shows\<close>

text \<open>The locator of an element wait, its kind as the messages name it, and its value.\<close>

fun Wait_by :: "cmd \<Rightarrow> locator \<Rightarrow> jsval \<Rightarrow> jsval task" where
  "Wait_by self (ById x) maxTime = Wait_byId self x maxTime"
| "Wait_by self (ByXpath x) maxTime = Wait_byXpath self x maxTime"
| "Wait_by self (ByCss x) maxTime = Wait_bySelector self x maxTime"

fun kind_of :: "locator \<Rightarrow> string" where
  "kind_of (ById x) = ''id''"
| "kind_of (ByXpath x) = ''xpath''"
| "kind_of (ByCss x) = ''selector''"

fun value_of :: "locator \<Rightarrow> string" where
  "value_of (ById x) = x"
| "value_of (ByXpath x) = x"
| "value_of (ByCss x) = x"

text \<open>The three click operations by their target.\<close>

datatype target = AtXpath string | AtSelector string | AtCursor

fun SingleClick_at :: "cmd \<Rightarrow> target \<Rightarrow> jsval \<Rightarrow> jsval task" where
  "SingleClick_at self (AtXpath x) options = SingleClick_byXpath self x options"
| "SingleClick_at self (AtSelector x) options = SingleClick_bySelector self x options"
| "SingleClick_at self AtCursor options = SingleClick_atCursor self options"

text \<open>Every operation of the two classes, with its arguments.\<close>

datatype operation =
    WaitById string jsval
  | WaitByXpath string jsval
  | WaitBySelector string jsval
  | WaitByTime jsval
  | WaitByPageToComplete
  | WaitByCondition string jsval
  | ClickByXpath string jsval
  | ClickBySelector string jsval
  | ClickAtCursor jsval

fun run :: "cmd \<Rightarrow> operation \<Rightarrow> jsval task" where
  "run self (WaitById x t) = Wait_byId self x t"
| "run self (WaitByXpath x t) = Wait_byXpath self x t"
| "run self (WaitBySelector x t) = Wait_bySelector self x t"
| "run self (WaitByTime ms) = Wait_byTime self ms"
| "run self WaitByPageToComplete = Wait_byPageToComplete self"
| "run self (WaitByCondition x t) = Wait_byCondition self x t"
| "run self (ClickByXpath x opts) = SingleClick_byXpath self x opts"
| "run self (ClickBySelector x opts) = SingleClick_bySelector self x opts"
| "run self (ClickAtCursor opts) = SingleClick_atCursor self opts"

text \<open>The timeouts that a trace hands to \<open>driver.wait\<close>, in order.\<close>

fun driver_timeouts :: "event list \<Rightarrow> jsval list" where
  "driver_timeouts [] = []"
| "driver_timeouts (DriverWait c t # evs) = t # driver_timeouts evs"
| "driver_timeouts (ev # evs) = driver_timeouts evs"

text \<open>The diagnostic records of a trace, in order.\<close>

fun is_diagnostic :: "event \<Rightarrow> bool" where
  "is_diagnostic (LogError fmt args) = True"
| "is_diagnostic (LogVerbose e) = True"
| "is_diagnostic ev = False"

definition diagnostics :: "event list \<Rightarrow> event list" where
  "diagnostics tr = filter is_diagnostic tr"

text \<open>The calls of the Completion Predicate in a trace.\<close>

fun is_settle_wait :: "event \<Rightarrow> bool" where
  "is_settle_wait (ExtraWait c) = True"
| "is_settle_wait ev = False"

definition settle_waits :: "event list \<Rightarrow> event list" where
  "settle_waits tr = filter is_settle_wait tr"

section \<open>Stand-ins for the browser\<close>

text \<open>
  Concrete browsers to run the operations on. \<open>poll_until\<close> is a polling wait over the
  results that the condition gives before the time is over: it stops at the first truthy
  value or the first error, and times out when the results are used up.
\<close>

definition timeout_error :: exn where
  "timeout_error = DriverError ''TimeoutError'' ''Wait timed out''"

definition no_such_element :: exn where
  "no_such_element = DriverError ''NoSuchElementError'' ''no such element''"

fun poll_until :: "jsval settle list \<Rightarrow> jsval settle" where
  "poll_until [] = Rejected timeout_error"
| "poll_until (Resolved v # rest) = (if truthy v then Resolved v else poll_until rest)"
| "poll_until (Rejected e # rest) = Rejected e"
| "poll_until (Pending # rest) = Pending"

text \<open>
  A page given by the time in ms at which each element appears (\<open>None\<close>: never), the
  results of a script at its successive polls, and the state of the Completion
  Predicate's promise. An element can be found and clicked when it is there at time 0.
\<close>

definition page_browser ::
  "(locator \<Rightarrow> nat option) \<Rightarrow> (string \<Rightarrow> jsval settle list) \<Rightarrow> jsval settle \<Rightarrow> browser" where
  "page_browser appears polls settled =
     \<lparr> wait_until = (\<lambda>c t.
         case c of
           ElementLocated l \<Rightarrow>
             (case (appears l, t) of
                (Some a, JNum n) \<Rightarrow> if int a \<le> n then Resolved (JStr (value_of l))
                                    else Rejected timeout_error
              | _ \<Rightarrow> Rejected timeout_error)
         | ScriptTruthy script \<Rightarrow> poll_until (polls script)),
       findElement = (\<lambda>l. if appears l = Some 0 then Resolved 1 else Rejected no_such_element),
       click_perform = (\<lambda>e. Resolved ()),
       extraWait = (\<lambda>c. settled) \<rparr>"

text \<open>A page where \<open>#submit\<close> appears after 2000 ms and \<open>#go\<close> is there from the start.\<close>

definition demo_appears :: "locator \<Rightarrow> nat option" where
  "demo_appears l =
     (if l = ById ''submit'' then Some 2000
      else if l \<in> {ById ''go'', ByXpath ''//a'', ByCss ''#go''} then Some 0
      else None)"

definition demo_polls :: "string \<Rightarrow> jsval settle list" where
  "demo_polls script =
     (if script = ''return window.ready'' then [Resolved (JBool False), Resolved JUndefined]
      else if script = ''return 1'' then [Resolved (JNum 1)]
      else [Rejected (DriverError ''JavascriptError'' script)])"

definition demo :: "jsval settle \<Rightarrow> cmd" where
  "demo settled =
     \<lparr> browser = page_browser demo_appears demo_polls settled,
       pageCompleteCheck = ''return document.readyState'' \<rparr>"

text \<open>The same page, with a script that throws at its first evaluation.\<close>

definition demo_throwing :: "jsval settle \<Rightarrow> cmd" where
  "demo_throwing settled =
     \<lparr> browser = page_browser demo_appears
                   (\<lambda>script. [Rejected (DriverError ''JavascriptError'' script)]) settled,
       pageCompleteCheck = ''return document.readyState'' \<rparr>"

section \<open>Notions used by the properties\<close>

text \<open>The option records \<open>{wait: true}\<close> and \<open>{wait: false}\<close>.\<close>

definition wait_true :: jsval where
  "wait_true = JObj [(''wait'', JBool True)]"

definition wait_false :: jsval where
  "wait_false = JObj [(''wait'', JBool False)]"

text \<open>An options record, as opposed to a primitive value.\<close>

fun is_record :: "jsval \<Rightarrow> bool" where
  "is_record (JObj kvs) = True"
| "is_record v = False"

text \<open>
  The options are present, contain the key \<open>wait\<close>, and its value is the boolean
  \<open>true\<close> itself.
\<close>

fun wait_is_true :: "jsval \<Rightarrow> bool" where
  "wait_is_true (JObj kvs) = (map_of kvs ''wait'' = Some (JBool True))"
| "wait_is_true v = False"

text \<open>
  The click itself succeeds: the element is found (when there is one to find) and the
  dispatch of the click resolves.
\<close>

fun click_succeeds :: "cmd \<Rightarrow> target \<Rightarrow> bool" where
  "click_succeeds self (AtXpath x) =
     (case findElement (browser self) (ByXpath x) of
        Resolved el \<Rightarrow> click_perform (browser self) (Some el) = Resolved ()
      | Rejected e \<Rightarrow> False
      | Pending \<Rightarrow> False)"
| "click_succeeds self (AtSelector x) =
     (case findElement (browser self) (ByCss x) of
        Resolved el \<Rightarrow> click_perform (browser self) (Some el) = Resolved ()
      | Rejected e \<Rightarrow> False
      | Pending \<Rightarrow> False)"
| "click_succeeds self AtCursor = (click_perform (browser self) None = Resolved ())"

text \<open>
  What each click method does once the click has been dispatched, given the format and
  the arguments of its log line and the message of its error: a summary used to unfold
  the three methods in the proofs.
\<close>

definition after_click :: "cmd \<Rightarrow> string \<Rightarrow> jsval list \<Rightarrow> string \<Rightarrow> jsval \<Rightarrow> jsval task" where
  "after_click self fmt args msg opts tr =
     (case wait_option opts of
        Inl e \<Rightarrow> (Rejected (Fresh msg), tr @ [LogError fmt args, LogVerbose e])
      | Inr True \<Rightarrow> (extraWait (browser self) (pageCompleteCheck self),
                      tr @ [ExtraWait (pageCompleteCheck self)])
      | Inr False \<Rightarrow> (Resolved JUndefined, tr))"

text \<open>
  The failure paths of an operation, read off its method. \<open>caught\<close> gives the calls
  made inside \<open>try\<close> up to the first one that throws, with what it throws; it is
  \<open>None\<close> when nothing throws inside \<open>try\<close>, and for the two methods that have no
  \<open>try\<close>. \<open>catch_summary\<close> is the format and the arguments of the \<open>log.error\<close>
  call of the catch block, \<open>catch_throws\<close> is what the catch block throws at its end.
\<close>

definition caught_wait :: "cmd \<Rightarrow> cond \<Rightarrow> jsval \<Rightarrow> (event list \<times> exn) option" where
  "caught_wait self c time =
     (case wait_until (browser self) c time of
        Rejected e \<Rightarrow> Some ([DriverWait c time], e)
      | Resolved v \<Rightarrow> None
      | Pending \<Rightarrow> None)"

definition caught_options :: "event list \<Rightarrow> jsval \<Rightarrow> (event list \<times> exn) option" where
  "caught_options calls opts =
     (case wait_option opts of Inl e \<Rightarrow> Some (calls, e) | Inr w \<Rightarrow> None)"

definition caught_click :: "cmd \<Rightarrow> locator \<Rightarrow> jsval \<Rightarrow> (event list \<times> exn) option" where
  "caught_click self l opts =
     (case findElement (browser self) l of
        Rejected e \<Rightarrow> Some ([FindElement l], e)
      | Pending \<Rightarrow> None
      | Resolved el \<Rightarrow>
          (case click_perform (browser self) (Some el) of
             Rejected e \<Rightarrow> Some ([FindElement l, ClickPerform (Some el)], e)
           | Pending \<Rightarrow> None
           | Resolved u \<Rightarrow> caught_options [FindElement l, ClickPerform (Some el)] opts))"

fun caught :: "cmd \<Rightarrow> operation \<Rightarrow> (event list \<times> exn) option" where
  "caught self (WaitById x t) = caught_wait self (ElementLocated (ById x)) (js_or t (JNum 6000))"
| "caught self (WaitByXpath x t) =
     caught_wait self (ElementLocated (ByXpath x)) (js_or t (JNum 6000))"
| "caught self (WaitBySelector x t) =
     caught_wait self (ElementLocated (ByCss x)) (js_or t (JNum 6000))"
| "caught self (WaitByTime ms) = None"
| "caught self WaitByPageToComplete = None"
| "caught self (WaitByCondition x t) =
     caught_wait self (ScriptTruthy (''return '' @ x)) (js_or t (JNum 6000))"
| "caught self (ClickByXpath x opts) = caught_click self (ByXpath x) opts"
| "caught self (ClickBySelector x opts) = caught_click self (ByCss x) opts"
| "caught self (ClickAtCursor opts) =
     (case click_perform (browser self) None of
        Rejected e \<Rightarrow> Some ([ClickPerform None], e)
      | Pending \<Rightarrow> None
      | Resolved u \<Rightarrow> caught_options [ClickPerform None] opts)"

fun catch_summary :: "operation \<Rightarrow> (string \<times> jsval list) option" where
  "catch_summary (WaitById x t) =
     Some (''Element by id %s was not located in %s ms'', [JStr x, js_or t (JNum 6000)])"
| "catch_summary (WaitByXpath x t) =
     Some (''Element by xpath %s was not located in %s ms'', [JStr x, js_or t (JNum 6000)])"
| "catch_summary (WaitBySelector x t) =
     Some (''Element by selector %s was not located in %s ms'', [JStr x, js_or t (JNum 6000)])"
| "catch_summary (WaitByTime ms) = None"
| "catch_summary WaitByPageToComplete = None"
| "catch_summary (WaitByCondition x t) =
     Some (''Condition was not met'', [JStr x, js_or t (JNum 6000)])"
| "catch_summary (ClickByXpath x opts) =
     Some (''Could not single click on element with xpath %s'', [JStr x])"
| "catch_summary (ClickBySelector x opts) =
     Some (''Could not single click on element with selector %s'', [JStr x])"
| "catch_summary (ClickAtCursor opts) = Some (''Could not perform single click'', [])"

text \<open>The error of a message that ends in the timeout: the new error, or the conversion's.\<close>

definition timed_error :: "string \<Rightarrow> jsval \<Rightarrow> exn" where
  "timed_error msg time =
     (case to_string time of Inl e \<Rightarrow> e | Inr s \<Rightarrow> Fresh (msg @ s @ '' ms''))"

fun catch_throws :: "operation \<Rightarrow> exn option" where
  "catch_throws (WaitById x t) =
     Some (timed_error (''Element by id '' @ x @ '' was not located in '') (js_or t (JNum 6000)))"
| "catch_throws (WaitByXpath x t) =
     Some (timed_error (''Element by xpath '' @ x @ '' was not located in '')
             (js_or t (JNum 6000)))"
| "catch_throws (WaitBySelector x t) =
     Some (timed_error (''Element by selector '' @ x @ '' was not located in '')
             (js_or t (JNum 6000)))"
| "catch_throws (WaitByTime ms) = None"
| "catch_throws WaitByPageToComplete = None"
| "catch_throws (WaitByCondition x t) =
     Some (timed_error (''Condition '' @ x @ '' was not met in '') (js_or t (JNum 6000)))"
| "catch_throws (ClickByXpath x opts) =
     Some (Fresh (''Could not single click on element with xpath '' @ x))"
| "catch_throws (ClickBySelector x opts) =
     Some (Fresh (''Could not single click on element with selector '' @ x))"
| "catch_throws (ClickAtCursor opts) = Some (Fresh ''Could not perform single click'')"

text \<open>The values that ToString converts without throwing.\<close>

fun has_string :: "jsval \<Rightarrow> bool" where
  "has_string (JObj kvs) = has_primitive kvs"
| "has_string v = True"

text \<open>
  The timeout argument of an operation, when it has one, is a value that the model
  speaks about and that has a string form: so it is when it is omitted or a safe
  integer.
\<close>

fun plain_timeout :: "operation \<Rightarrow> bool" where
  "plain_timeout (WaitById x t) = (safe_number t \<and> has_string t)"
| "plain_timeout (WaitByXpath x t) = (safe_number t \<and> has_string t)"
| "plain_timeout (WaitBySelector x t) = (safe_number t \<and> has_string t)"
| "plain_timeout (WaitByCondition x t) = (safe_number t \<and> has_string t)"
| "plain_timeout op = True"

section \<open>Each method, unfolded\<close>

lemmas task_defs = call_def await_def seq_def try_catch_def log_error_def log_verbose_def
  throw_def eval_def normal_def return_promise_def async_def

lemma Wait_byId_run:
  "Wait_byId self x t tr =
     (let time = (if truthy t then t else JNum 6000);
          tr1 = tr @ [DriverWait (ElementLocated (ById x)) time] in
      case wait_until (browser self) (ElementLocated (ById x)) time of
        Resolved v \<Rightarrow> (Resolved JUndefined, tr1)
      | Pending \<Rightarrow> (Pending, tr1)
      | Rejected e \<Rightarrow>
          (Rejected (timed_error (''Element by id '' @ x @ '' was not located in '') time),
           tr1 @ [LogError ''Element by id %s was not located in %s ms'' [JStr x, time], LogVerbose e]))"
  by (simp add: Wait_byId_def task_defs timed_error_def js_or_def Let_def
           split: settle.splits sum.splits)

lemma Wait_byXpath_run:
  "Wait_byXpath self x t tr =
     (let time = (if truthy t then t else JNum 6000);
          tr1 = tr @ [DriverWait (ElementLocated (ByXpath x)) time] in
      case wait_until (browser self) (ElementLocated (ByXpath x)) time of
        Resolved v \<Rightarrow> (Resolved JUndefined, tr1)
      | Pending \<Rightarrow> (Pending, tr1)
      | Rejected e \<Rightarrow>
          (Rejected (timed_error (''Element by xpath '' @ x @ '' was not located in '') time),
           tr1 @ [LogError ''Element by xpath %s was not located in %s ms'' [JStr x, time], LogVerbose e]))"
  by (simp add: Wait_byXpath_def task_defs timed_error_def js_or_def Let_def
           split: settle.splits sum.splits)

lemma Wait_bySelector_run:
  "Wait_bySelector self x t tr =
     (let time = (if truthy t then t else JNum 6000);
          tr1 = tr @ [DriverWait (ElementLocated (ByCss x)) time] in
      case wait_until (browser self) (ElementLocated (ByCss x)) time of
        Resolved v \<Rightarrow> (Resolved JUndefined, tr1)
      | Pending \<Rightarrow> (Pending, tr1)
      | Rejected e \<Rightarrow>
          (Rejected (timed_error (''Element by selector '' @ x @ '' was not located in '') time),
           tr1 @ [LogError ''Element by selector %s was not located in %s ms'' [JStr x, time], LogVerbose e]))"
  by (simp add: Wait_bySelector_def task_defs timed_error_def js_or_def Let_def
           split: settle.splits sum.splits)

lemma Wait_byCondition_run:
  "Wait_byCondition self x t tr =
     (let time = (if truthy t then t else JNum 6000);
          tr1 = tr @ [DriverWait (ScriptTruthy (''return '' @ x)) time] in
      case wait_until (browser self) (ScriptTruthy (''return '' @ x)) time of
        Resolved v \<Rightarrow> (Resolved JUndefined, tr1)
      | Pending \<Rightarrow> (Pending, tr1)
      | Rejected e \<Rightarrow>
          (Rejected (timed_error (''Condition '' @ x @ '' was not met in '') time),
           tr1 @ [LogError ''Condition was not met'' [JStr x, time], LogVerbose e]))"
  by (simp add: Wait_byCondition_def task_defs timed_error_def js_or_def Let_def
           split: settle.splits sum.splits)

lemma Wait_byTime_run:
  "Wait_byTime self ms tr =
     ((case coerce_delay ms of Inl e \<Rightarrow> Rejected e | Inr u \<Rightarrow> Resolved JUndefined),
      tr @ [SetTimeout ms])"
  by (simp add: Wait_byTime_def delay_def task_defs split: sum.splits)

lemma Wait_byPageToComplete_run:
  "Wait_byPageToComplete self tr =
     (extraWait (browser self) (pageCompleteCheck self), tr @ [ExtraWait (pageCompleteCheck self)])"
  by (simp add: Wait_byPageToComplete_def task_defs)

lemma SingleClick_byXpath_run:
  "SingleClick_byXpath self x opts tr =
     (let fmt = ''Could not single click on element with xpath %s'';
          msg = ''Could not single click on element with xpath '' @ x;
          tr1 = tr @ [FindElement (ByXpath x)] in
      case findElement (browser self) (ByXpath x) of
        Rejected e \<Rightarrow> (Rejected (Fresh msg), tr1 @ [LogError fmt [JStr x], LogVerbose e])
      | Pending \<Rightarrow> (Pending, tr1)
      | Resolved el \<Rightarrow>
          (case click_perform (browser self) (Some el) of
             Rejected e \<Rightarrow> (Rejected (Fresh msg),
                             tr1 @ [ClickPerform (Some el), LogError fmt [JStr x], LogVerbose e])
           | Pending \<Rightarrow> (Pending, tr1 @ [ClickPerform (Some el)])
           | Resolved u \<Rightarrow> after_click self fmt [JStr x] msg opts (tr1 @ [ClickPerform (Some el)])))"
  by (simp add: SingleClick_byXpath_def after_click_def task_defs Let_def
           split: settle.splits sum.splits bool.splits)

lemma SingleClick_bySelector_run:
  "SingleClick_bySelector self x opts tr =
     (let fmt = ''Could not single click on element with selector %s'';
          msg = ''Could not single click on element with selector '' @ x;
          tr1 = tr @ [FindElement (ByCss x)] in
      case findElement (browser self) (ByCss x) of
        Rejected e \<Rightarrow> (Rejected (Fresh msg), tr1 @ [LogError fmt [JStr x], LogVerbose e])
      | Pending \<Rightarrow> (Pending, tr1)
      | Resolved el \<Rightarrow>
          (case click_perform (browser self) (Some el) of
             Rejected e \<Rightarrow> (Rejected (Fresh msg),
                             tr1 @ [ClickPerform (Some el), LogError fmt [JStr x], LogVerbose e])
           | Pending \<Rightarrow> (Pending, tr1 @ [ClickPerform (Some el)])
           | Resolved u \<Rightarrow> after_click self fmt [JStr x] msg opts (tr1 @ [ClickPerform (Some el)])))"
  by (simp add: SingleClick_bySelector_def after_click_def task_defs Let_def
           split: settle.splits sum.splits bool.splits)

lemma SingleClick_atCursor_run:
  "SingleClick_atCursor self opts tr =
     (let fmt = ''Could not perform single click'';
          msg = ''Could not perform single click'';
          tr1 = tr @ [ClickPerform None] in
      case click_perform (browser self) None of
        Rejected e \<Rightarrow> (Rejected (Fresh msg), tr1 @ [LogError fmt [], LogVerbose e])
      | Pending \<Rightarrow> (Pending, tr1)
      | Resolved u \<Rightarrow> after_click self fmt [] msg opts tr1)"
  by (simp add: SingleClick_atCursor_def after_click_def task_defs Let_def
           split: settle.splits sum.splits bool.splits)

lemmas click_runs = SingleClick_byXpath_run SingleClick_bySelector_run SingleClick_atCursor_run

lemmas wait_runs = Wait_byId_run Wait_byXpath_run Wait_bySelector_run Wait_byCondition_run

lemma driver_timeouts_append:
  "driver_timeouts (xs @ ys) = driver_timeouts xs @ driver_timeouts ys"
  by (induction xs rule: driver_timeouts.induct) simp_all

lemma diagnostics_append: "diagnostics (xs @ ys) = diagnostics xs @ diagnostics ys"
  by (simp add: diagnostics_def)

lemma settle_waits_append: "settle_waits (xs @ ys) = settle_waits xs @ settle_waits ys"
  by (simp add: settle_waits_def)

lemma wait_option_record:
  "is_record opts \<or> opts = JUndefined \<Longrightarrow> wait_option opts = Inr (wait_is_true opts)"
  by (cases opts)
     (auto simp: wait_option_def js_in_def js_get_def split: option.splits bool.splits)

lemma wait_option_true: "wait_option wait_true = Inr True"
  by (simp add: wait_option_def wait_true_def js_in_def js_get_def)

lemma wait_option_false: "wait_option wait_false = Inr False"
  by (simp add: wait_option_def wait_false_def js_in_def js_get_def)

lemma wait_option_omitted: "wait_option JUndefined = Inr False"
  by (simp add: wait_option_def)

lemma to_string_500: "to_string (JNum 500) = Inr ''500''"
  by (simp add: show_int_def show_nat.simps)


lemma to_string_has_string: "has_string v \<Longrightarrow> \<exists>s. to_string v = Inr s"
  by (cases v) simp_all

lemma timed_error_fresh:
  "has_string t \<Longrightarrow> \<exists>m. timed_error msg (if truthy t then t else JNum 6000) = Fresh m"
  by (cases t) (simp_all add: timed_error_def)

lemmas demo_defs = demo_def demo_throwing_def page_browser_def demo_appears_def demo_polls_def
  timeout_error_def no_such_element_def

section \<open>Element waits: the timeout error\<close>

text \<open>
  C1, as the claim states it, fails: \<open>byId('nope', 0)\<close> on a page that never has the
  element rejects with an error that records 6000 ms and not the 0 ms of the call.
\<close>

theorem C1_zero_timeout_records_default:
  "fst (Wait_byId (demo Pending) ''nope'' (JNum 0) [])
     = Rejected (Fresh ''Element by id nope was not located in 6000 ms'')
   \<and> fst (Wait_byId (demo Pending) ''nope'' (JNum 0) [])
     \<noteq> Rejected (Fresh ''Element by id nope was not located in 0 ms'')"
  by (simp add: Wait_byId_run Let_def demo_defs timed_error_def show_int_def show_nat.simps)

text \<open>
  C1 (amended): take a timeout \<open>t\<close> that is omitted or a number of the model, or any
  other value whose conversion to a string does not throw. For every locator kind, when
  the driver's wait for the element rejects, the call rejects with a fresh error whose
  message embeds the kind, the locator value and the timeout in use, after the
  error-level and the verbose-level log record. The timeout in use is \<open>t\<close> when \<open>t\<close>
  is truthy, and 6000 when \<open>t\<close> is omitted or falsy (zero included); it is also the
  timeout handed to the driver.
\<close>

theorem C1_wait_by_rejects_with_timeout:
  assumes "safe_number t"
    and "time = (if truthy t then t else JNum 6000)"
    and "wait_until (browser self) (ElementLocated l) time = Rejected e"
    and "to_string time = Inr s"
  shows "Wait_by self l t tr =
    (Rejected (Fresh (''Element by '' @ kind_of l @ '' '' @ value_of l @ '' was not located in ''
                      @ s @ '' ms'')),
     tr @ [DriverWait (ElementLocated l) time,
           LogError (''Element by '' @ kind_of l @ '' %s was not located in %s ms'')
                    [JStr (value_of l), time],
           LogVerbose e])"
  using assms
  by (cases l)
     (simp_all add: Wait_byId_run Wait_byXpath_run Wait_bySelector_run timed_error_def Let_def)

theorem C1_wait_by_rejects_with_timeout_witness:
  "safe_number (JNum 500)
   \<and> JNum 500 = (if truthy (JNum 500) then JNum 500 else JNum 6000)
   \<and> wait_until (browser (demo Pending)) (ElementLocated (ById ''submit'')) (JNum 500)
       = Rejected timeout_error
   \<and> to_string (JNum 500) = Inr ''500''
   \<and> Wait_by (demo Pending) (ById ''submit'') (JNum 500) [] =
      (Rejected (Fresh ''Element by id submit was not located in 500 ms''),
       [DriverWait (ElementLocated (ById ''submit'')) (JNum 500),
        LogError ''Element by id %s was not located in %s ms'' [JStr ''submit'', JNum 500],
        LogVerbose timeout_error])"
proof -
  have h0: "safe_number (JNum 500)" by simp
  have h1: "JNum 500 = (if truthy (JNum 500) then JNum 500 else JNum 6000)" by simp
  have h2: "wait_until (browser (demo Pending)) (ElementLocated (ById ''submit'')) (JNum 500)
       = Rejected timeout_error"
    by (simp add: demo_def page_browser_def demo_appears_def)
  show ?thesis
    using h0 h1 h2 to_string_500
      C1_wait_by_rejects_with_timeout [OF h0 h1 h2 to_string_500, of "[]"]
    by simp
qed

section \<open>The timeout handed to the driver\<close>

text \<open>
  C3, as the claim states it, fails: \<open>byId('go', 0)\<close> hands 6000 to the driver and not
  the 0 of the call.
\<close>

theorem C3_zero_timeout_replaced:
  "driver_timeouts (snd (Wait_byId (demo Pending) ''go'' (JNum 0) [])) = [JNum 6000]
   \<and> driver_timeouts (snd (Wait_byId (demo Pending) ''go'' (JNum 0) [])) \<noteq> [JNum 0]"
  by (simp add: Wait_byId_run Let_def demo_defs)

text \<open>
  C3 (amended): for byId, byXpath, bySelector and byCondition called with a number
  \<open>n\<close> as maxTime, the timeout handed to the driver is \<open>n\<close> itself when \<open>n\<close> is
  negative (and for every nonzero \<open>n\<close>): it is neither validated nor replaced. A
  maxTime of zero is replaced by 6000.
\<close>

theorem C3_negative_timeout_passed_through:
  assumes "op \<in> {WaitById x (JNum n), WaitByXpath x (JNum n), WaitBySelector x (JNum n),
                  WaitByCondition x (JNum n)}"
  shows "driver_timeouts (snd (run self op tr))
           = driver_timeouts tr @ [if n = 0 then JNum 6000 else JNum n]"
  using assms
  by (auto simp: wait_runs Let_def driver_timeouts_append split: settle.splits)

theorem C3_negative_timeout_passed_through_witness:
  "WaitByCondition ''1'' (JNum (- 5))
     \<in> {WaitById ''1'' (JNum (- 5)), WaitByXpath ''1'' (JNum (- 5)),
        WaitBySelector ''1'' (JNum (- 5)), WaitByCondition ''1'' (JNum (- 5))}
   \<and> driver_timeouts (snd (run (demo Pending) (WaitByCondition ''1'' (JNum (- 5))) []))
       = [JNum (- 5)]"
proof -
  have h: "WaitByCondition ''1'' (JNum (- 5))
     \<in> {WaitById ''1'' (JNum (- 5)), WaitByXpath ''1'' (JNum (- 5)),
        WaitBySelector ''1'' (JNum (- 5)), WaitByCondition ''1'' (JNum (- 5))}"
    by simp
  show ?thesis
    using h C3_negative_timeout_passed_through [OF h, of "demo Pending" "[]"] by simp
qed

section \<open>Condition waits\<close>



section \<open>Fixed delay and page completion\<close>

text \<open>
  C8, as the claim states it, fails: \<open>byTime({toString: 1})\<close> rejects, with the
  \<open>TypeError\<close> of the timer's coercion of its delay.
\<close>

theorem C8_byTime_rejects_unconvertible_delay:
  "fst (Wait_byTime (demo Pending) (JObj [(''toString'', JNum 1)]) []) = Rejected TypeError
   \<and> fst (Wait_byTime (demo Pending) (JObj [(''toString'', JNum 1)]) []) \<noteq> Resolved JUndefined"
  by (simp add: Wait_byTime_run has_primitive_def)

text \<open>
  C8 (amended): byTime performs no validation of \<open>ms\<close>: whatever \<open>ms\<close> is, the call
  hands it to the timer as it is and does nothing else, so it logs nothing, and it
  never raises an error of this layer (a timeout error least of all). For every \<open>ms\<close>
  that is not an object, so for every number, negative ones and \<open>NaN\<close> included, and
  for an omitted \<open>ms\<close>, the call resolves.
\<close>

theorem C8_byTime_resolves_for_primitives:
  "snd (Wait_byTime self ms tr) = tr @ [SetTimeout ms]
   \<and> (\<forall>msg. fst (Wait_byTime self ms tr) \<noteq> Rejected (Fresh msg))
   \<and> (\<not> is_record ms \<longrightarrow> fst (Wait_byTime self ms tr) = Resolved JUndefined)"
  by (cases ms) (simp_all add: Wait_byTime_run)

theorem C8_byTime_resolves_for_primitives_witness:
  "\<not> is_record (JNum (- 3))
   \<and> snd (Wait_byTime (demo Pending) (JNum (- 3)) []) = [SetTimeout (JNum (- 3))]
   \<and> fst (Wait_byTime (demo Pending) (JNum (- 3)) []) = Resolved JUndefined"
proof -
  have h: "\<not> is_record (JNum (- 3))" by simp
  show ?thesis
    using h C8_byTime_resolves_for_primitives [of "demo Pending" "JNum (- 3)" "[]"] by simp
qed

text \<open>
  C9: the promise of byPageToComplete has the state of the promise that the browser's
  extraWait returns for pageCompleteCheck (resolved with the same value, rejected with
  the same error, or never settled), and that call is all the method does: no timer,
  no wait of the driver.
\<close>

theorem C9_byPageToComplete_is_extraWait:
  "fst (Wait_byPageToComplete self tr) = extraWait (browser self) (pageCompleteCheck self)
   \<and> snd (Wait_byPageToComplete self tr) = tr @ [ExtraWait (pageCompleteCheck self)]"
  by (simp add: Wait_byPageToComplete_def task_defs)

section \<open>Clicks: the settle-wait\<close>

text \<open>
  C2: a click by xpath or by selector with \<open>{wait: true}\<close> resolves with a value
  exactly when the click itself succeeds and the promise of the Completion Predicate
  resolves with that value, and the Completion Predicate is called last, after the
  click; with \<open>{wait: false}\<close> or no options the call resolves exactly when the click
  itself succeeds, and the Completion Predicate is not called.
\<close>

theorem C2_click_resolves_after_settle_wait:
  assumes "tg = AtXpath x \<or> tg = AtSelector x"
  shows "((fst (SingleClick_at self tg wait_true tr) = Resolved v)
            = (click_succeeds self tg
               \<and> extraWait (browser self) (pageCompleteCheck self) = Resolved v))
       \<and> (click_succeeds self tg \<longrightarrow>
            (\<exists>el. snd (SingleClick_at self tg wait_true tr)
                    = tr @ [FindElement (if tg = AtXpath x then ByXpath x else ByCss x),
                            ClickPerform (Some el), ExtraWait (pageCompleteCheck self)]))
       \<and> (opts = wait_false \<or> opts = JUndefined \<longrightarrow>
            (fst (SingleClick_at self tg opts tr) = Resolved JUndefined) = click_succeeds self tg
            \<and> settle_waits (snd (SingleClick_at self tg opts tr)) = settle_waits tr)"
  using assms
  by (auto simp: click_runs after_click_def wait_option_true wait_option_false
        wait_option_omitted Let_def settle_waits_def split: settle.splits)

theorem C2_click_resolves_after_settle_wait_witness:
  "(AtSelector ''#go'' = AtXpath ''#go'' \<or> AtSelector ''#go'' = AtSelector ''#go'')
   \<and> click_succeeds (demo Pending) (AtSelector ''#go'')
   \<and> fst (SingleClick_at (demo Pending) (AtSelector ''#go'') wait_true []) \<noteq> Resolved JUndefined
   \<and> fst (SingleClick_at (demo Pending) (AtSelector ''#go'') JUndefined []) = Resolved JUndefined
   \<and> settle_waits (snd (SingleClick_at (demo Pending) (AtSelector ''#go'') JUndefined [])) = []"
proof -
  have h: "AtSelector ''#go'' = AtXpath ''#go'' \<or> AtSelector ''#go'' = AtSelector ''#go''"
    by simp
  have c: "click_succeeds (demo Pending) (AtSelector ''#go'')"
    by (simp add: demo_defs)
  have p: "extraWait (browser (demo Pending)) (pageCompleteCheck (demo Pending)) = Pending"
    by (simp add: demo_defs)
  show ?thesis
    using h c p
      C2_click_resolves_after_settle_wait [OF h, of "demo Pending" "[]" JUndefined JUndefined]
    by (simp add: settle_waits_def)
qed

text \<open>
  C5: a click by selector with \<open>{wait: true}\<close> on a selector that matches no element
  rejects with a fresh error whose message names the selector kind and the selector,
  after the two log records, and the Completion Predicate is not called.
\<close>

theorem C5_missing_selector_rejects_without_settle_wait:
  assumes "findElement (browser self) (ByCss selector) = Rejected e"
  shows "SingleClick_bySelector self selector wait_true tr =
           (Rejected (Fresh (''Could not single click on element with selector '' @ selector)),
            tr @ [FindElement (ByCss selector),
                  LogError ''Could not single click on element with selector %s'' [JStr selector],
                  LogVerbose e])
       \<and> settle_waits (snd (SingleClick_bySelector self selector wait_true tr)) = settle_waits tr"
  using assms by (simp add: SingleClick_bySelector_run Let_def settle_waits_def)

theorem C5_missing_selector_rejects_without_settle_wait_witness:
  "findElement (browser (demo (Resolved JUndefined))) (ByCss ''.missing'') = Rejected no_such_element
   \<and> SingleClick_bySelector (demo (Resolved JUndefined)) ''.missing'' wait_true [] =
       (Rejected (Fresh ''Could not single click on element with selector .missing''),
        [FindElement (ByCss ''.missing''),
         LogError ''Could not single click on element with selector %s'' [JStr ''.missing''],
         LogVerbose no_such_element])
   \<and> settle_waits (snd (SingleClick_bySelector (demo (Resolved JUndefined)) ''.missing'' wait_true []))
       = []"
proof -
  have h: "findElement (browser (demo (Resolved JUndefined))) (ByCss ''.missing'')
             = Rejected no_such_element"
    by (simp add: demo_def page_browser_def demo_appears_def)
  show ?thesis
    using h C5_missing_selector_rejects_without_settle_wait [OF h, of "[]"]
    by (simp add: settle_waits_def)
qed

text \<open>
  C10: when the click itself succeeds and the promise of the Completion Predicate
  rejects, a click with \<open>{wait: true}\<close> rejects with that very error; no log record is
  added, and the call of the Completion Predicate is the last thing the method does.
\<close>

theorem C10_settle_wait_rejection_passes_unchanged:
  assumes "click_succeeds self tg"
    and "extraWait (browser self) (pageCompleteCheck self) = Rejected e"
  shows "fst (SingleClick_at self tg wait_true tr) = Rejected e
       \<and> diagnostics (snd (SingleClick_at self tg wait_true tr)) = diagnostics tr
       \<and> (\<exists>calls. snd (SingleClick_at self tg wait_true tr)
                    = tr @ calls @ [ExtraWait (pageCompleteCheck self)])"
  using assms
  by (cases tg; auto simp: click_runs after_click_def wait_option_true Let_def diagnostics_def
        split: settle.splits)

theorem C10_settle_wait_rejection_passes_unchanged_witness:
  "click_succeeds (demo (Rejected timeout_error)) (AtXpath ''//a'')
   \<and> extraWait (browser (demo (Rejected timeout_error)))
        (pageCompleteCheck (demo (Rejected timeout_error))) = Rejected timeout_error
   \<and> fst (SingleClick_at (demo (Rejected timeout_error)) (AtXpath ''//a'') wait_true [])
       = Rejected timeout_error
   \<and> diagnostics (snd (SingleClick_at (demo (Rejected timeout_error)) (AtXpath ''//a'') wait_true []))
       = []"
proof -
  have c: "click_succeeds (demo (Rejected timeout_error)) (AtXpath ''//a'')"
    by (simp add: demo_def page_browser_def demo_appears_def)
  have r: "extraWait (browser (demo (Rejected timeout_error)))
        (pageCompleteCheck (demo (Rejected timeout_error))) = Rejected timeout_error"
    by (simp add: demo_def page_browser_def)
  show ?thesis
    using c r C10_settle_wait_rejection_passes_unchanged [OF c r, of "[]"]
    by (simp add: diagnostics_def)
qed

section \<open>Failure paths and their diagnostics\<close>

text \<open>
  C6, as the claim states it, fails: a click with \<open>{wait: true}\<close> whose click succeeds
  and whose Completion Predicate rejects fails with the raw error of the predicate, and
  no log record has been written.
\<close>

theorem C6_settle_wait_failure_has_no_diagnostics:
  "fst (SingleClick_byXpath (demo (Rejected timeout_error)) ''//a'' wait_true [])
     = Rejected (DriverError ''TimeoutError'' ''Wait timed out'')
   \<and> diagnostics (snd (SingleClick_byXpath (demo (Rejected timeout_error)) ''//a'' wait_true []))
     = []"
  by (simp add: SingleClick_byXpath_run after_click_def wait_option_true Let_def demo_defs
        diagnostics_def)

text \<open>
  C6 (amended): for every operation whose timeout, if it has one, is omitted or a
  number of the model (or another value that has a string form). When a call inside
  the method's \<open>try\<close> throws (the driver's wait, the lookup of the element, the
  dispatch of the click, the test of the options), the method writes exactly two log
  records, its summary at error level and then the caught error at verbose level, as
  the last thing it does, and then fails with the fresh error of its catch block. When
  nothing throws inside \<open>try\<close>, the method writes no log record, and if it fails all
  the same, the failure is handed on as it is: it is the rejection of the Completion
  Predicate's promise, whose call is then the last thing the method did, or the
  \<open>TypeError\<close> of byTime's timer.
\<close>

theorem C6_failure_paths:
  assumes "plain_timeout op"
  shows "(\<forall>calls cause. caught self op = Some (calls, cause) \<longrightarrow>
            (\<exists>fmt args msg.
               catch_summary op = Some (fmt, args) \<and> catch_throws op = Some (Fresh msg)
               \<and> run self op tr
                   = (Rejected (Fresh msg), tr @ calls @ [LogError fmt args, LogVerbose cause])
               \<and> diagnostics calls = []))
       \<and> (caught self op = None \<longrightarrow>
            diagnostics (snd (run self op tr)) = diagnostics tr
            \<and> (\<forall>err. fst (run self op tr) = Rejected err \<longrightarrow>
                  (extraWait (browser self) (pageCompleteCheck self) = Rejected err
                   \<and> (\<exists>calls. snd (run self op tr)
                                = tr @ calls @ [ExtraWait (pageCompleteCheck self)]))
                  \<or> (\<exists>ms. op = WaitByTime ms \<and> coerce_delay ms = Inl err)))"
proof (cases op)
  case (WaitById x t)
  with assms timed_error_fresh [of t "''Element by id '' @ x @ '' was not located in ''"]
  show ?thesis
    by (auto simp: wait_runs caught_wait_def js_or_def Let_def diagnostics_def
          split: settle.splits)
next
  case (WaitByXpath x t)
  with assms timed_error_fresh [of t "''Element by xpath '' @ x @ '' was not located in ''"]
  show ?thesis
    by (auto simp: wait_runs caught_wait_def js_or_def Let_def diagnostics_def
          split: settle.splits)
next
  case (WaitBySelector x t)
  with assms timed_error_fresh [of t "''Element by selector '' @ x @ '' was not located in ''"]
  show ?thesis
    by (auto simp: wait_runs caught_wait_def js_or_def Let_def diagnostics_def
          split: settle.splits)
next
  case (WaitByTime ms)
  then show ?thesis
    by (auto simp: Wait_byTime_run diagnostics_def split: sum.splits)
next
  case WaitByPageToComplete
  then show ?thesis
    by (auto simp: Wait_byPageToComplete_run diagnostics_def)
next
  case (WaitByCondition x t)
  with assms timed_error_fresh [of t "''Condition '' @ x @ '' was not met in ''"]
  show ?thesis
    by (auto simp: wait_runs caught_wait_def js_or_def Let_def diagnostics_def
          split: settle.splits)
next
  case (ClickByXpath x opts)
  then show ?thesis
    by (auto simp: click_runs after_click_def caught_click_def caught_options_def Let_def
          diagnostics_def split: settle.splits sum.splits bool.splits
          intro: exI [where x = "[FindElement l, ClickPerform c]" for l c])
next
  case (ClickBySelector x opts)
  then show ?thesis
    by (auto simp: click_runs after_click_def caught_click_def caught_options_def Let_def
          diagnostics_def split: settle.splits sum.splits bool.splits
          intro: exI [where x = "[FindElement l, ClickPerform c]" for l c])
next
  case (ClickAtCursor opts)
  then show ?thesis
    by (auto simp: click_runs after_click_def caught_options_def Let_def
          diagnostics_def split: settle.splits sum.splits bool.splits
          intro: exI [where x = "[ClickPerform c]" for c])
qed

theorem C6_failure_paths_witness:
  "plain_timeout (WaitByCondition ''foo('' (JNum 250))
   \<and> caught (demo Pending) (WaitByCondition ''foo('' (JNum 250))
       = Some ([DriverWait (ScriptTruthy ''return foo('') (JNum 250)],
               DriverError ''JavascriptError'' ''return foo('')
   \<and> run (demo Pending) (WaitByCondition ''foo('' (JNum 250)) []
       = (Rejected (Fresh ''Condition foo( was not met in 250 ms''),
          [DriverWait (ScriptTruthy ''return foo('') (JNum 250),
           LogError ''Condition was not met'' [JStr ''foo('', JNum 250],
           LogVerbose (DriverError ''JavascriptError'' ''return foo('')])"
proof -
  have s: "plain_timeout (WaitByCondition ''foo('' (JNum 250))" by simp
  have c: "caught (demo Pending) (WaitByCondition ''foo('' (JNum 250))
       = Some ([DriverWait (ScriptTruthy ''return foo('') (JNum 250)],
               DriverError ''JavascriptError'' ''return foo('')"
    by (simp add: caught_wait_def js_or_def demo_defs)
  have t: "show_int 250 = ''250''"
    by (simp add: show_int_def show_nat.simps)
  show ?thesis
    using s c C6_failure_paths [OF s, of "demo Pending" "[]"]
    by (simp add: timed_error_def js_or_def t)
qed

text \<open>
  C7, as the claim states it, fails: with \<open>{wait: true}\<close> and a selector that matches
  nothing, the options satisfy the condition and the Completion Predicate is not called.
\<close>

theorem C7_failed_click_skips_settle_wait:
  "wait_is_true wait_true
   \<and> settle_waits (snd (SingleClick_bySelector (demo (Resolved JUndefined)) ''.missing''
                          wait_true [])) = []"
  by (simp add: SingleClick_bySelector_run Let_def demo_defs settle_waits_def wait_true_def)

text \<open>
  C7 (amended): for every click operation and every options record (or no options): the
  Completion Predicate is called, once, exactly when the click itself succeeds and the
  options are present, contain the key \<open>wait\<close> and its value is the boolean \<open>true\<close>;
  options for which this does not hold, whatever their other keys and whatever
  other value of \<open>wait\<close>, give the same outcome and the same trace as no options.
\<close>

theorem C7_wait_option_recognition:
  assumes "is_record opts \<or> opts = JUndefined"
  shows "settle_waits (snd (SingleClick_at self tg opts tr))
           = settle_waits tr @ (if click_succeeds self tg \<and> wait_is_true opts
                                then [ExtraWait (pageCompleteCheck self)] else [])
       \<and> (\<not> wait_is_true opts \<longrightarrow>
            SingleClick_at self tg opts tr = SingleClick_at self tg JUndefined tr)"
  using wait_option_record [OF assms]
  by (cases tg; auto simp: click_runs after_click_def wait_option_omitted Let_def
        settle_waits_def split: settle.splits)

theorem C7_wait_option_recognition_witness:
  "(is_record (JObj [(''wait'', JNum 1), (''delay'', JBool True)])
      \<or> JObj [(''wait'', JNum 1), (''delay'', JBool True)] = JUndefined)
   \<and> \<not> wait_is_true (JObj [(''wait'', JNum 1), (''delay'', JBool True)])
   \<and> settle_waits (snd (SingleClick_at (demo Pending) AtCursor
                          (JObj [(''wait'', JNum 1), (''delay'', JBool True)]) [])) = []
   \<and> SingleClick_at (demo Pending) AtCursor (JObj [(''wait'', JNum 1), (''delay'', JBool True)]) []
       = SingleClick_at (demo Pending) AtCursor JUndefined []"
proof -
  have h: "is_record (JObj [(''wait'', JNum 1), (''delay'', JBool True)])
      \<or> JObj [(''wait'', JNum 1), (''delay'', JBool True)] = JUndefined"
    by simp
  have n: "\<not> wait_is_true (JObj [(''wait'', JNum 1), (''delay'', JBool True)])" by simp
  show ?thesis
    using h n C7_wait_option_recognition [OF h, of "demo Pending" AtCursor "[]"]
    by (auto simp: settle_waits_def)
qed

end
